theory Spec2Isabelle
  imports Main "HOL-Library.Multiset" "HOL-Library.Char_ord" "HOL-Library.List_Lexorder"
begin

section \<open>Data model\<close>

text \<open>
  A handle is the opaque identifier under which the Gramps database stores an object.
  Python strings are modelled as \<open>string\<close>.
\<close>

type_synonym handle = string

text \<open>
  The values that the database and the helper functions hand back to the resource layer.
  They are opaque to \<open>object_extend\<close>: it only places them in a dictionary. \<open>PyNone\<close>
  is Python's \<open>None\<close>, \<open>PyObj h\<close> the stored object with handle \<open>h\<close>, and a dictionary
  is an association list in insertion order.
\<close>

datatype pyval =
    PyNone
  | PyStr string
  | PyObj handle
  | PyList "pyval list"
  | PyDict "(string \<times> pyval) list"

text \<open>
  Exceptions as values. \<open>HandleError\<close> is what the database raises for a handle it does
  not hold; \<open>Raised\<close> stands for any other exception of a collaborator;
  \<open>UnknownPredicate\<close> belongs to the rule-set combinator.
\<close>

datatype error =
    HandleError handle
  | Raised string
  | UnknownPredicate string

text \<open>A reference record: a handle plus auxiliary data (for instance the role of an event).\<close>

record reference =
  ref :: handle
  role :: string

text \<open>
  The person object as \<open>object_extend\<close> sees it. The last two fields are the attributes
  that \<open>object_extend\<close> attaches; \<open>None\<close> means that the attribute does not exist on the
  object, which is the case for every object fresh from the database.
\<close>

record person =
  handle :: handle
  gramps_id :: string
  gender :: int
  change :: int
  citation_list :: "handle list"
  event_ref_list :: "reference list"
  family_list :: "handle list"
  parent_family_list :: "handle list"
  media_list :: "reference list"
  note_list :: "handle list"
  person_ref_list :: "reference list"
  tag_list :: "handle list"
  profile :: "pyval option"
  extended :: "(string \<times> pyval) list option"

text \<open>
  The read interface of the database that \<open>person.py\<close> calls directly. The database is
  an external collaborator, so each lookup is a parameter; it either raises or returns
  a value (possibly \<open>PyNone\<close>).
\<close>

record db =
  get_citation_from_handle :: "handle \<Rightarrow> error + pyval"
  get_note_from_handle :: "handle \<Rightarrow> error + pyval"
  get_tag_from_handle :: "handle \<Rightarrow> error + pyval"

text \<open>
  The names that \<open>person.py\<close> imports from \<open>.util\<close>, and the method
  \<open>get_main_parents_family_handle\<close> of the Gramps person class. Their bodies are not part
  of the sources at hand, so they are parameters as well. Each takes the database as the
  source passes it.
\<close>

record util =
  get_events_for_references :: "db \<Rightarrow> person \<Rightarrow> error + pyval"
  get_family_by_handle :: "db \<Rightarrow> handle option \<Rightarrow> error + pyval"
  get_media_for_references :: "db \<Rightarrow> person \<Rightarrow> error + pyval"
  get_people_for_references :: "db \<Rightarrow> person \<Rightarrow> error + pyval"
  get_person_profile_for_object :: "db \<Rightarrow> person \<Rightarrow> bool \<Rightarrow> bool \<Rightarrow> error + pyval"
  get_main_parents_family_handle :: "person \<Rightarrow> handle option"

text \<open>The state of a \<open>PersonResourceHelper\<close> that \<open>object_extend\<close> reads through \<open>self\<close>.\<close>

record resource_helper =
  db_of :: db
  build_profile :: bool
  extend_object :: bool

section \<open>Expansion: \<open>PersonResourceHelper.object_extend\<close>\<close>

text \<open>Sequencing of computations that may raise: the first exception wins.\<close>

definition and_then :: "error + 'a \<Rightarrow> ('a \<Rightarrow> error + 'b) \<Rightarrow> error + 'b" where
  "and_then m f = (case m of Inl e \<Rightarrow> Inl e | Inr x \<Rightarrow> f x)"

text \<open>
  A list comprehension \<open>[f(h) for h in hs]\<close>: the calls run left to right, every result
  is kept, and an exception in any call ends the comprehension.
\<close>

fun comprehension :: "('a \<Rightarrow> error + 'b) \<Rightarrow> 'a list \<Rightarrow> error + 'b list" where
  "comprehension f [] = Inr []"
| "comprehension f (x # xs) =
     and_then (f x) (\<lambda>y. and_then (comprehension f xs) (\<lambda>ys. Inr (y # ys)))"

text \<open>
  \<open>object_extend\<close>, statement by statement. The dictionary literal evaluates its values
  in the order written. A handle taken from a list is never \<open>None\<close>, the main parents
  handle may be.
\<close>

definition attach_profile :: "util \<Rightarrow> resource_helper \<Rightarrow> person \<Rightarrow> error + person" where
  "attach_profile u self obj =
     (if build_profile self
      then and_then (get_person_profile_for_object u (db_of self) obj True True)
             (\<lambda>p. Inr (obj\<lparr>profile := Some p\<rparr>))
      else Inr obj)"

definition attach_extended :: "util \<Rightarrow> resource_helper \<Rightarrow> person \<Rightarrow> error + person" where
  "attach_extended u self obj =
     (if extend_object self
      then
        and_then (comprehension (get_citation_from_handle (db_of self)) (citation_list obj))
          (\<lambda>citations.
        and_then (get_events_for_references u (db_of self) obj)
          (\<lambda>events.
        and_then (comprehension (\<lambda>h. get_family_by_handle u (db_of self) (Some h)) (family_list obj))
          (\<lambda>families.
        and_then (comprehension (\<lambda>h. get_family_by_handle u (db_of self) (Some h))
                    (parent_family_list obj))
          (\<lambda>parent_families.
        and_then (get_family_by_handle u (db_of self) (get_main_parents_family_handle u obj))
          (\<lambda>primary_parent_family.
        and_then (get_media_for_references u (db_of self) obj)
          (\<lambda>media.
        and_then (comprehension (get_note_from_handle (db_of self)) (note_list obj))
          (\<lambda>notes.
        and_then (get_people_for_references u (db_of self) obj)
          (\<lambda>people.
        and_then (comprehension (get_tag_from_handle (db_of self)) (tag_list obj))
          (\<lambda>tags.
        Inr (obj\<lparr>extended := Some
          [(''citations'', PyList citations),
           (''events'', events),
           (''families'', PyList families),
           (''parent_families'', PyList parent_families),
           (''primary_parent_family'', primary_parent_family),
           (''media'', media),
           (''notes'', PyList notes),
           (''people'', people),
           (''tags'', PyList tags)]\<rparr>))))))))))
      else Inr obj)"

definition object_extend :: "util \<Rightarrow> resource_helper \<Rightarrow> person \<Rightarrow> error + person" where
  "object_extend u self obj = and_then (attach_profile u self obj) (attach_extended u self)"

text \<open>The names of the reference fields of a person, as the source reads them.\<close>

definition source_fields :: "string list" where
  "source_fields =
     [''citation_list'', ''event_ref_list'', ''family_list'', ''parent_family_list'',
      ''media_list'', ''note_list'', ''person_ref_list'', ''tag_list'']"

text \<open>The group of the side map stored under a key, if the object has a side map.\<close>

definition group :: "person \<Rightarrow> string \<Rightarrow> pyval option" where
  "group obj k = (case extended obj of None \<Rightarrow> None | Some gs \<Rightarrow> map_of gs k)"

subsection \<open>A small database for concrete runs\<close>

text \<open>
  A database that holds the handles of \<open>known\<close> and raises \<open>HandleError\<close> for the rest,
  and one that answers \<open>None\<close> for the rest instead.
\<close>

definition strict_lookup :: "handle list \<Rightarrow> handle \<Rightarrow> error + pyval" where
  "strict_lookup known h = (if h \<in> set known then Inr (PyObj h) else Inl (HandleError h))"

definition lenient_lookup :: "handle list \<Rightarrow> handle \<Rightarrow> error + pyval" where
  "lenient_lookup known h = (if h \<in> set known then Inr (PyObj h) else Inr PyNone)"

definition db_with :: "(handle \<Rightarrow> error + pyval) \<Rightarrow> db" where
  "db_with look =
     \<lparr>get_citation_from_handle = look, get_note_from_handle = look,
      get_tag_from_handle = look\<rparr>"

definition refs_with :: "(handle \<Rightarrow> error + pyval) \<Rightarrow> reference list \<Rightarrow> error + pyval" where
  "refs_with look rs = and_then (comprehension (\<lambda>r. look (ref r)) rs) (\<lambda>vs. Inr (PyList vs))"

definition first_handle :: "handle list \<Rightarrow> handle option" where
  "first_handle hs = (case hs of [] \<Rightarrow> None | h # _ \<Rightarrow> Some h)"

definition util_with :: "(handle \<Rightarrow> error + pyval) \<Rightarrow> util" where
  "util_with look =
     \<lparr>get_events_for_references = (\<lambda>d p. refs_with look (event_ref_list p)),
      get_family_by_handle = (\<lambda>d h. case h of None \<Rightarrow> Inr PyNone | Some k \<Rightarrow> look k),
      get_media_for_references = (\<lambda>d p. refs_with look (media_list p)),
      get_people_for_references = (\<lambda>d p. refs_with look (person_ref_list p)),
      get_person_profile_for_object = (\<lambda>d p with_family with_events. Inr (PyDict [])),
      get_main_parents_family_handle = (\<lambda>p. first_handle (parent_family_list p))\<rparr>"

definition helper_with :: "(handle \<Rightarrow> error + pyval) \<Rightarrow> bool \<Rightarrow> bool \<Rightarrow> resource_helper" where
  "helper_with look bp ext = \<lparr>db_of = db_with look, build_profile = bp, extend_object = ext\<rparr>"

definition sample_person :: person where
  "sample_person =
     \<lparr>handle = ''P1'', gramps_id = ''I0044'', gender = 1, change = 0,
      citation_list = [''C1''],
      event_ref_list = [\<lparr>ref = ''E1'', role = ''Primary''\<rparr>],
      family_list = [''F3''],
      parent_family_list = [''F1'', ''F2''],
      media_list = [\<lparr>ref = ''M1'', role = ''''\<rparr>],
      note_list = [''N1''],
      person_ref_list = [\<lparr>ref = ''P2'', role = ''''\<rparr>],
      tag_list = [''T1''],
      profile = None, extended = None\<rparr>"

definition sample_handles :: "handle list" where
  "sample_handles = [''C1'', ''E1'', ''F1'', ''F2'', ''F3'', ''M1'', ''N1'', ''P2'', ''T1'']"

definition sample_expanded :: person where
  "sample_expanded =
     sample_person\<lparr>profile := Some (PyDict []),
       extended := Some
          [(''citations'', PyList [PyObj ''C1'']),
           (''events'', PyList [PyObj ''E1'']),
           (''families'', PyList [PyObj ''F3'']),
           (''parent_families'', PyList [PyObj ''F1'', PyObj ''F2'']),
           (''primary_parent_family'', PyObj ''F1''),
           (''media'', PyList [PyObj ''M1'']),
           (''notes'', PyList [PyObj ''N1'']),
           (''people'', PyList [PyObj ''P2'']),
           (''tags'', PyList [PyObj ''T1''])]\<rparr>"

text \<open>A person whose second note handle is not in the database and who has no parents.\<close>

definition dangling_person :: person where
  "dangling_person = sample_person\<lparr>parent_family_list := [], note_list := [''N1'', ''N9'']\<rparr>"

definition dangling_expanded :: person where
  "dangling_expanded =
     dangling_person\<lparr>extended := Some
          [(''citations'', PyList [PyObj ''C1'']),
           (''events'', PyList [PyObj ''E1'']),
           (''families'', PyList [PyObj ''F3'']),
           (''parent_families'', PyList []),
           (''primary_parent_family'', PyNone),
           (''media'', PyList [PyObj ''M1'']),
           (''notes'', PyList [PyObj ''N1'', PyNone]),
           (''people'', PyList [PyObj ''P2'']),
           (''tags'', PyList [PyObj ''T1''])]\<rparr>"

abbreviation strict_util :: util where
  "strict_util \<equiv> util_with (strict_lookup sample_handles)"

abbreviation strict_helper :: "bool \<Rightarrow> bool \<Rightarrow> resource_helper" where
  "strict_helper \<equiv> helper_with (strict_lookup sample_handles)"

abbreviation lenient_util :: util where
  "lenient_util \<equiv> util_with (lenient_lookup sample_handles)"

abbreviation lenient_helper :: "bool \<Rightarrow> bool \<Rightarrow> resource_helper" where
  "lenient_helper \<equiv> helper_with (lenient_lookup sample_handles)"

section \<open>Rule-set combinator\<close>

text \<open>
  \<open>person.py\<close> hands filtering to \<open>apply_filter_rules\<close> of \<open>.filter\<close>, which is not
  among the sources at hand. The definitions of this section follow the specification
  (sections 3, 4.1, 4.2 and 6): the algorithm it gives for each function, and the
  invert flag applied after the combination.
\<close>

text \<open>Modelled from the spec: the combinator of a rule set, exactly one of and, or, xor, one
  (the body of \<open>apply_filter_rules\<close> is missing).\<close>

datatype combinator = And | Or | Xor | One

text \<open>Modelled from the spec: one entry of the \<open>rules\<close> list of the wire format, a
  predicate name and its positional values.\<close>

record rule =
  rule_name :: string
  rule_values :: "string list"

text \<open>Modelled from the spec: the rule set, with the keys \<open>function\<close> (optional), \<open>invert\<close>
  and \<open>rules\<close> of the wire format.\<close>

record ruleset =
  rs_function :: "combinator option"
  rs_invert :: bool
  rs_rules :: "rule list"

text \<open>Modelled from the spec: a predicate reads the entity and the store and answers with a
  boolean; a registry maps the predicate names of one entity kind to predicates that
  still await their values.\<close>

type_synonym predicate = "person \<Rightarrow> person list \<Rightarrow> bool"

type_synonym registry = "string \<Rightarrow> (string list \<Rightarrow> predicate) option"

text \<open>Modelled from the spec: rule-set construction. A name outside the registry fails with
  \<open>UnknownPredicate\<close> here, before anything is evaluated.\<close>

fun construct :: "registry \<Rightarrow> rule list \<Rightarrow> error + predicate list" where
  "construct reg [] = Inr []"
| "construct reg (r # rs) =
     (case reg (rule_name r) of
        None \<Rightarrow> Inl (UnknownPredicate (rule_name r))
      | Some p \<Rightarrow> and_then (construct reg rs) (\<lambda>ps. Inr (p (rule_values r) # ps)))"

text \<open>Modelled from the spec: the boolean vector of one entity, one entry for each predicate
  of the rule list.\<close>

definition evaluate_all :: "predicate list \<Rightarrow> person list \<Rightarrow> person \<Rightarrow> bool list" where
  "evaluate_all ps store e = map (\<lambda>p. p e store) ps"

text \<open>Modelled from the spec: the true count of a vector.\<close>

definition true_count :: "bool list \<Rightarrow> nat" where
  "true_count bs = length (filter id bs)"

text \<open>Modelled from the spec: the combination of the vector, by the rule the specification
  gives for each function: and: all true, or: at least one true, xor: the true count is
  odd, one: the true count is exactly one.\<close>

fun combine :: "combinator \<Rightarrow> bool list \<Rightarrow> bool" where
  "combine And bs = list_all id bs"
| "combine Or bs = list_ex id bs"
| "combine Xor bs = odd (true_count bs)"
| "combine One bs = (true_count bs = 1)"

text \<open>Modelled from the spec: the absence of a function means and.\<close>

definition chosen_function :: "ruleset \<Rightarrow> combinator" where
  "chosen_function rs = (case rs_function rs of None \<Rightarrow> And | Some f \<Rightarrow> f)"

text \<open>Modelled from the spec: the membership test of one entity. The invert flag complements
  the boolean after the combination.\<close>

definition selected :: "predicate list \<Rightarrow> ruleset \<Rightarrow> person list \<Rightarrow> person \<Rightarrow> bool" where
  "selected ps rs store e =
     (combine (chosen_function rs) (evaluate_all ps store e) \<noteq> rs_invert rs)"

text \<open>Modelled from the spec: \<open>select(ruleset, store)\<close>, the set of the handles of the
  entities of the store that pass the membership test.\<close>

definition select :: "registry \<Rightarrow> ruleset \<Rightarrow> person list \<Rightarrow> error + handle set" where
  "select reg rs store =
     and_then (construct reg (rs_rules rs))
       (\<lambda>ps. Inr (set (map handle (filter (selected ps rs store) store))))"

text \<open>The same rule set with the invert flag flipped.\<close>

definition inverted :: "ruleset \<Rightarrow> ruleset" where
  "inverted rs = rs\<lparr>rs_invert := \<not> rs_invert rs\<rparr>"

text \<open>Modelled from the spec: the gender codes, as the endpoint tests read them (0 female,
  1 male, 2 unknown).\<close>

definition FEMALE :: int where "FEMALE = 0"

definition MALE :: int where "MALE = 1"

definition UNKNOWN :: int where "UNKNOWN = 2"

text \<open>Modelled from the spec: the person predicates that the scenarios of the specification
  name. \<open>MultipleMarriages\<close> holds for a family list longer than one.\<close>

definition person_rules :: registry where
  "person_rules n =
     (if n = ''IsFemale'' then Some (\<lambda>vs e store. gender e = FEMALE)
      else if n = ''IsMale'' then Some (\<lambda>vs e store. gender e = MALE)
      else if n = ''HasUnknownGender'' then Some (\<lambda>vs e store. gender e = UNKNOWN)
      else if n = ''MultipleMarriages'' then Some (\<lambda>vs e store. 1 < length (family_list e))
      else None)"


definition male_remarried :: ruleset where
  "male_remarried =
     \<lparr>rs_function = None, rs_invert = False,
      rs_rules = [\<lparr>rule_name = ''IsMale'', rule_values = []\<rparr>,
                  \<lparr>rule_name = ''MultipleMarriages'', rule_values = []\<rparr>]\<rparr>"

definition someone :: "handle \<Rightarrow> int \<Rightarrow> handle list \<Rightarrow> person" where
  "someone h g fl = sample_person\<lparr>handle := h, gender := g, family_list := fl\<rparr>"

definition four_people :: "person list" where
  "four_people =
     [someone ''A'' 0 [''F1''], someone ''B'' 1 [''F1'', ''F2''],
      someone ''C'' 0 [''F1'', ''F2''], someone ''D'' 1 []]"

section \<open>Sort engine\<close>

text \<open>
  Sorting is done by the base classes of the resource, which are not among the sources
  at hand. The definitions of this section follow the specification (section 4.3).
\<close>

text \<open>Modelled from the spec: the direction of a sort (the body of the sort engine is
  missing).\<close>

datatype direction = Ascending | Descending

text \<open>Modelled from the spec: the order of two entities under a key. The key decides in the
  requested direction; entities with equal keys go by handle, ascending, in either
  direction.\<close>

definition precedes :: "direction \<Rightarrow> (person \<Rightarrow> 'k::linorder) \<Rightarrow> person \<Rightarrow> person \<Rightarrow> bool" where
  "precedes d key a b =
     (if key a = key b then handle a \<le> handle b
      else if d = Ascending then key a < key b
      else key b < key a)"

text \<open>Modelled from the spec: sorting by insertion into the sequence ordered so far.\<close>

fun insert_entity ::
  "direction \<Rightarrow> (person \<Rightarrow> 'k::linorder) \<Rightarrow> person \<Rightarrow> person list \<Rightarrow> person list" where
  "insert_entity d key x [] = [x]"
| "insert_entity d key x (y # ys) =
     (if precedes d key x y then x # y # ys else y # insert_entity d key x ys)"

text \<open>Modelled from the spec: \<open>order(entities, sort_key, direction, locale)\<close>. The extraction
  function of a sort key under a locale (date ordinal, collation key, soundex rank) is a
  parameter; it yields a scalar of a linear order.\<close>

definition order ::
  "(string \<Rightarrow> string \<Rightarrow> person \<Rightarrow> 'k::linorder) \<Rightarrow> person list \<Rightarrow> string \<Rightarrow> direction \<Rightarrow> string
     \<Rightarrow> person list" where
  "order extraction entities skey d locale =
     foldr (insert_entity d (extraction skey locale)) entities []"

text \<open>The entities of a sequence that are tied at the key value \<open>v\<close>, in their order.\<close>

definition tied :: "(person \<Rightarrow> 'k) \<Rightarrow> 'k \<Rightarrow> person list \<Rightarrow> person list" where
  "tied key v xs = filter (\<lambda>e. key e = v) xs"

text \<open>An extraction for concrete runs: every key is the change time.\<close>

definition by_change :: "string \<Rightarrow> string \<Rightarrow> person \<Rightarrow> int" where
  "by_change skey locale e = change e"

definition dated :: "handle \<Rightarrow> int \<Rightarrow> person" where
  "dated h c = sample_person\<lparr>handle := h, change := c\<rparr>"

definition three_dated :: "person list" where
  "three_dated = [dated ''b'' 2, dated ''c'' 1, dated ''a'' 2]"

section \<open>Profile engine\<close>

text \<open>
  \<open>object_extend\<close> obtains the profile from \<open>get_person_profile_for_object\<close> of \<open>.util\<close>,
  which is not among the sources at hand, and always asks it for families and events
  together. The options of a profile are those of the specification (section 4.5), and
  the definitions of this section follow it.
\<close>

text \<open>Modelled from the spec: the options of a profile request (the body of the profile
  engine is missing).\<close>

datatype profile_option = OptSelf | OptAge | OptEvents | OptFamilies | OptSpan | OptAll

text \<open>Modelled from the spec: a partial date; each of year, month and day may be unknown.\<close>

record partial_date =
  year :: "nat option"
  month :: "nat option"
  day :: "nat option"

text \<open>Modelled from the spec: what a profile shows of an event.\<close>

record event =
  event_type :: string
  event_date :: partial_date
  event_place :: string

text \<open>Modelled from the spec: what a family sub-summary shows of a family; \<open>union_end\<close> is
  the date up to which the duration of the marriage counts.\<close>

record family =
  family_handle :: handle
  family_gramps_id :: string
  family_surname :: string
  relationship :: string
  father :: "person option"
  mother :: "person option"
  children :: "person list"
  marriage :: "event option"
  divorce :: "event option"
  family_events :: "event list"
  union_end :: partial_date

text \<open>Modelled from the spec: what the profile engine reads from the store, and the services
  that depend on the locale (elapsed-time phrasing, date display, translated labels).\<close>

record lookups =
  birth_of :: "person \<Rightarrow> event option"
  death_of :: "person \<Rightarrow> event option"
  events_of :: "person \<Rightarrow> event list"
  families_of :: "person \<Rightarrow> family list"
  primary_parent_family_of :: "person \<Rightarrow> family option"
  other_parent_families_of :: "person \<Rightarrow> family list"
  name_given_of :: "person \<Rightarrow> string"
  name_surname_of :: "person \<Rightarrow> string"
  elapsed :: "string \<Rightarrow> partial_date \<Rightarrow> partial_date \<Rightarrow> string"
  display_date :: "string \<Rightarrow> partial_date \<Rightarrow> string"
  translate :: "string \<Rightarrow> string \<Rightarrow> string"

text \<open>Modelled from the spec: an option is requested when it is named or when \<open>all\<close> is.\<close>

definition wants :: "profile_option list \<Rightarrow> profile_option \<Rightarrow> bool" where
  "wants options x = (x \<in> set options \<or> OptAll \<in> set options)"

text \<open>Modelled from the spec: a date of which neither year nor month nor day is known.\<close>

definition fully_unknown :: "partial_date \<Rightarrow> bool" where
  "fully_unknown d = (year d = None \<and> month d = None \<and> day d = None)"

text \<open>Modelled from the spec: an elapsed-time field; it is omitted when either date is fully
  unknown.\<close>

definition elapsed_entry ::
  "lookups \<Rightarrow> string \<Rightarrow> string \<Rightarrow> event option \<Rightarrow> partial_date \<Rightarrow> (string \<times> pyval) list" where
  "elapsed_entry env locale key start d =
     (case start of
        None \<Rightarrow> []
      | Some s \<Rightarrow>
          if fully_unknown (event_date s) \<or> fully_unknown d then []
          else [(key, PyStr (elapsed env locale (event_date s) d))])"

text \<open>Modelled from the spec: the entry of one event, with the age at the event when asked
  for.\<close>

definition event_profile ::
  "lookups \<Rightarrow> string \<Rightarrow> bool \<Rightarrow> event option \<Rightarrow> event \<Rightarrow> (string \<times> pyval) list" where
  "event_profile env locale with_age birth ev =
     (if with_age then elapsed_entry env locale ''age'' birth (event_date ev) else [])
     @ [(''date'', PyStr (display_date env locale (event_date ev))),
        (''place'', PyStr (event_place ev)),
        (''type'', PyStr (translate env locale (event_type ev)))]"

text \<open>Modelled from the spec: a vital entry (birth or death); empty when there is no such
  event.\<close>

definition vital :: "lookups \<Rightarrow> string \<Rightarrow> bool \<Rightarrow> event option \<Rightarrow> event option \<Rightarrow> pyval" where
  "vital env locale with_age birth ev =
     (case ev of None \<Rightarrow> PyDict [] | Some e \<Rightarrow> PyDict (event_profile env locale with_age birth e))"

text \<open>Modelled from the spec: the sex letter of a profile, as the endpoint tests show it.\<close>

definition sex :: "person \<Rightarrow> string" where
  "sex p = (if gender p = FEMALE then ''F'' else if gender p = MALE then ''M'' else ''U'')"

text \<open>Modelled from the spec: the option \<open>self\<close>, identity and vital dates; \<open>age\<close> adds the
  ages to the vital entries.\<close>

definition self_profile :: "lookups \<Rightarrow> string \<Rightarrow> bool \<Rightarrow> person \<Rightarrow> (string \<times> pyval) list" where
  "self_profile env locale with_age p =
     [(''birth'', vital env locale with_age (birth_of env p) (birth_of env p)),
      (''death'', vital env locale with_age (birth_of env p) (death_of env p)),
      (''gramps_id'', PyStr (gramps_id p)),
      (''handle'', PyStr (handle p)),
      (''name_given'', PyStr (name_given_of env p)),
      (''name_surname'', PyStr (name_surname_of env p)),
      (''sex'', PyStr (sex p))]"

text \<open>Modelled from the spec: the mini-profile of a spouse or child; it has no families of its
  own, so the recursion ends after one level.\<close>

definition mini_profile :: "lookups \<Rightarrow> string \<Rightarrow> bool \<Rightarrow> person option \<Rightarrow> pyval" where
  "mini_profile env locale with_age p =
     (case p of None \<Rightarrow> PyDict [] | Some q \<Rightarrow> PyDict (self_profile env locale with_age q))"

text \<open>Modelled from the spec: the marriage or divorce entry of a family; \<open>span\<close> adds the
  duration.\<close>

definition union_profile :: "lookups \<Rightarrow> string \<Rightarrow> bool \<Rightarrow> family \<Rightarrow> event option \<Rightarrow> pyval" where
  "union_profile env locale with_span f ev =
     (case ev of
        None \<Rightarrow> PyDict []
      | Some e \<Rightarrow>
          PyDict (event_profile env locale False None e
                  @ (if with_span then elapsed_entry env locale ''span'' (Some e) (union_end f)
                     else [])))"

text \<open>Modelled from the spec: a family sub-summary.\<close>

definition family_profile :: "lookups \<Rightarrow> string \<Rightarrow> bool \<Rightarrow> bool \<Rightarrow> family \<Rightarrow> pyval" where
  "family_profile env locale with_age with_span f =
     PyDict
       [(''children'',
           PyList (map (\<lambda>c. mini_profile env locale with_age (Some c)) (children f))),
        (''divorce'', union_profile env locale with_span f (divorce f)),
        (''events'',
           PyList (map (\<lambda>e. PyDict (event_profile env locale False None e)) (family_events f))),
        (''family_surname'', PyStr (family_surname f)),
        (''father'', mini_profile env locale with_age (father f)),
        (''gramps_id'', PyStr (family_gramps_id f)),
        (''handle'', PyStr (family_handle f)),
        (''marriage'', union_profile env locale with_span f (marriage f)),
        (''mother'', mini_profile env locale with_age (mother f)),
        (''relationship'', PyStr (translate env locale (relationship f)))]"

text \<open>Modelled from the spec: \<open>profile(entity, options, locale)\<close>. Each option adds its part
  to the identity part: \<open>events\<close> the event list with the age at each event, \<open>families\<close>
  the family sub-summaries.\<close>

definition profile_of :: "lookups \<Rightarrow> person \<Rightarrow> profile_option list \<Rightarrow> string \<Rightarrow> pyval" where
  "profile_of env entity options locale =
     PyDict
       (self_profile env locale (wants options OptAge) entity
        @ (if wants options OptEvents
           then [(''events'',
                    PyList (map (\<lambda>e. PyDict (event_profile env locale True (birth_of env entity) e))
                              (events_of env entity)))]
           else [])
        @ (if wants options OptFamilies
           then [(''families'',
                    PyList (map (family_profile env locale (wants options OptAge)
                                   (wants options OptSpan))
                              (families_of env entity))),
                 (''other_parent_families'',
                    PyList (map (family_profile env locale (wants options OptAge)
                                   (wants options OptSpan))
                              (other_parent_families_of env entity))),
                 (''primary_parent_family'',
                    (case primary_parent_family_of env entity of
                       None \<Rightarrow> PyDict []
                     | Some f \<Rightarrow> family_profile env locale (wants options OptAge)
                                  (wants options OptSpan) f))]
           else []))"

text \<open>Reading a dictionary value: its keys, and the value under a key.\<close>

definition dict_keys :: "pyval \<Rightarrow> string list" where
  "dict_keys v = (case v of PyDict kvs \<Rightarrow> map fst kvs | _ \<Rightarrow> [])"

definition dict_get :: "pyval \<Rightarrow> string \<Rightarrow> pyval option" where
  "dict_get v k = (case v of PyDict kvs \<Rightarrow> map_of kvs k | _ \<Rightarrow> None)"

text \<open>A store for concrete profiles.\<close>

definition born :: event where
  "born = \<lparr>event_type = ''Birth'',
           event_date = \<lparr>year = Some 1906, month = Some 9, day = Some 5\<rparr>,
           event_place = ''Central City''\<rparr>"

definition died :: event where
  "died = \<lparr>event_type = ''Death'',
           event_date = \<lparr>year = Some 1993, month = Some 6, day = Some 6\<rparr>,
           event_place = ''Sevierville''\<rparr>"

definition sample_family :: family where
  "sample_family =
     \<lparr>family_handle = ''F1'', family_gramps_id = ''F0001'', family_surname = ''Warner'',
      relationship = ''Married'', father = None, mother = Some sample_person,
      children = [], marriage = Some born, divorce = None, family_events = [],
      union_end = \<lparr>year = None, month = None, day = None\<rparr>\<rparr>"

definition sample_lookups :: lookups where
  "sample_lookups =
     \<lparr>birth_of = (\<lambda>p. Some born), death_of = (\<lambda>p. Some died),
      events_of = (\<lambda>p. [born, died]), families_of = (\<lambda>p. [sample_family]),
      primary_parent_family_of = (\<lambda>p. Some sample_family),
      other_parent_families_of = (\<lambda>p. []),
      name_given_of = (\<lambda>p. ''Mary''), name_surname_of = (\<lambda>p. ''Warner''),
      elapsed = (\<lambda>locale a b. ''some time''),
      display_date = (\<lambda>locale d. ''a date''),
      translate = (\<lambda>locale s. s)\<rparr>"

section \<open>Properties of expansion\<close>

lemma and_then_Inr_iff:
  "and_then m f = Inr y \<longleftrightarrow> (\<exists>x. m = Inr x \<and> f x = Inr y)"
  by (cases m) (simp_all add: and_then_def)

lemma comprehension_Inr_iff:
  "comprehension f xs = Inr ys \<longleftrightarrow> map f xs = map Inr ys"
proof (induction xs arbitrary: ys)
  case Nil
  show ?case by auto
next
  case (Cons x xs)
  show ?case
  proof (cases ys)
    case Nil
    then show ?thesis by (auto simp: and_then_Inr_iff)
  next
    case (Cons y ys')
    then show ?thesis by (auto simp: and_then_Inr_iff Cons.IH)
  qed
qed

lemma comprehension_length:
  "comprehension f xs = Inr ys \<Longrightarrow> length ys = length xs"
  using comprehension_Inr_iff [of f xs ys] by (metis length_map)

lemma attach_profile_frame:
  "attach_profile u self obj = Inr obj1 \<Longrightarrow> \<exists>p. obj1 = obj\<lparr>profile := p\<rparr>"
  by (auto simp: attach_profile_def and_then_Inr_iff split: if_splits
        intro: exI [of _ "profile obj"])

lemma attach_extended_frame:
  "attach_extended u self obj = Inr obj2 \<Longrightarrow> \<exists>x. obj2 = obj\<lparr>extended := x\<rparr>"
  by (auto simp: attach_extended_def and_then_Inr_iff split: if_splits
        intro: exI [of _ "extended obj"])

lemma attach_extended_Inr:
  assumes "extend_object self" and "attach_extended u self obj = Inr obj2"
  shows "\<exists>cs ev fs pfs ppf md ns pe ts.
      comprehension (get_citation_from_handle (db_of self)) (citation_list obj) = Inr cs
    \<and> comprehension (\<lambda>h. get_family_by_handle u (db_of self) (Some h)) (family_list obj) = Inr fs
    \<and> comprehension (\<lambda>h. get_family_by_handle u (db_of self) (Some h))
          (parent_family_list obj) = Inr pfs
    \<and> get_family_by_handle u (db_of self) (get_main_parents_family_handle u obj) = Inr ppf
    \<and> comprehension (get_note_from_handle (db_of self)) (note_list obj) = Inr ns
    \<and> comprehension (get_tag_from_handle (db_of self)) (tag_list obj) = Inr ts
    \<and> extended obj2 = Some
          [(''citations'', PyList cs), (''events'', ev), (''families'', PyList fs),
           (''parent_families'', PyList pfs), (''primary_parent_family'', ppf),
           (''media'', md), (''notes'', PyList ns), (''people'', pe),
           (''tags'', PyList ts)]"
  using assms by (auto simp: attach_extended_def and_then_Inr_iff)

lemma object_extend_Inr:
  assumes "object_extend u self obj = Inr obj'"
  shows "attach_profile u self obj = Inr (obj\<lparr>profile := profile obj'\<rparr>)
       \<and> attach_extended u self (obj\<lparr>profile := profile obj'\<rparr>) = Inr obj'"
proof -
  from assms obtain obj1 where a: "attach_profile u self obj = Inr obj1"
    and b: "attach_extended u self obj1 = Inr obj'"
    by (auto simp: object_extend_def and_then_Inr_iff)
  from a obtain p where p: "obj1 = obj\<lparr>profile := p\<rparr>" using attach_profile_frame by blast
  from b obtain x where "obj' = obj1\<lparr>extended := x\<rparr>" using attach_extended_frame by blast
  with p have "obj1 = obj\<lparr>profile := profile obj'\<rparr>" by simp
  with a b show ?thesis by simp
qed

lemmas run_defs =
  object_extend_def attach_profile_def attach_extended_def and_then_def
  util_with_def helper_with_def db_with_def refs_with_def first_handle_def
  sample_handles_def sample_person_def

lemma sample_run:
  "object_extend strict_util (strict_helper True True) sample_person = Inr sample_expanded"
  by (simp add: run_defs strict_lookup_def sample_expanded_def)

lemma sample_run_extend_only:
  "object_extend strict_util (strict_helper False True) sample_person
     = Inr (sample_expanded\<lparr>profile := None\<rparr>)"
  by (simp add: run_defs strict_lookup_def sample_expanded_def)

subsection \<open>C1: the parent families group\<close>

text \<open>
  Claim C1 says that for a person with a primary parent family the group
  \<open>parent_families\<close> leaves the primary family out, so that it has one entry fewer than
  \<open>parent_family_list\<close>. The source builds the group from every handle of
  \<open>parent_family_list\<close>: for a person with the parent families \<open>F1\<close> and \<open>F2\<close>, whose
  primary family is \<open>F1\<close>, the group holds both families, \<open>F1\<close> among them, and has
  two entries where the claim and the endpoint test ask for one.
\<close>

theorem parent_families_includes_primary_family:
  "parent_family_list sample_person = [''F1'', ''F2'']
   \<and> get_main_parents_family_handle strict_util sample_person = Some ''F1''
   \<and> object_extend strict_util (strict_helper False True) sample_person
        = Inr (sample_expanded\<lparr>profile := None\<rparr>)
   \<and> group (sample_expanded\<lparr>profile := None\<rparr>) ''parent_families''
        = Some (PyList [PyObj ''F1'', PyObj ''F2''])
   \<and> length [PyObj ''F1'', PyObj ''F2''] \<noteq> length (parent_family_list sample_person) - 1"
  by (simp add: run_defs strict_lookup_def sample_expanded_def group_def)

subsection \<open>C2: handles that do not resolve\<close>

text \<open>
  Claim C2 says that expansion never raises on a handle that does not resolve, that an
  unresolved scalar reference is omitted and that unresolved members of a list are
  dropped. The source does no such filtering. For a person whose note list names the
  handle \<open>N9\<close> that the database does not hold, and who has no parent family: over a
  database that raises for an unknown handle, expansion raises; over a database that
  answers \<open>None\<close>, the \<open>None\<close> stays in the \<open>notes\<close> group, and the key
  \<open>primary_parent_family\<close> is present with the value \<open>None\<close>.
\<close>

theorem expansion_unresolved_handle_counterexample:
  "object_extend strict_util (strict_helper False True) dangling_person
     = Inl (HandleError ''N9'')
   \<and> object_extend lenient_util (lenient_helper False True) dangling_person
     = Inr dangling_expanded
   \<and> group dangling_expanded ''notes'' = Some (PyList [PyObj ''N1'', PyNone])
   \<and> group dangling_expanded ''primary_parent_family'' = Some PyNone"
  by (simp add: run_defs strict_lookup_def lenient_lookup_def dangling_person_def
        dangling_expanded_def group_def)

text \<open>
  C2 as amended: when expansion returns, each of the groups \<open>citations\<close>, \<open>families\<close>,
  \<open>parent_families\<close>, \<open>notes\<close> and \<open>tags\<close> has exactly one entry for each handle of its
  source list, in the order of that list, and the entry is what the lookup returned for
  the handle; the key \<open>primary_parent_family\<close> is always present and holds what the
  lookup of the main parents handle returned. Every lookup has returned, so expansion
  raises whenever one of these lookups raises.
\<close>

theorem expansion_keeps_every_lookup_result:
  assumes "extend_object self" and "object_extend u self obj = Inr obj'"
  shows "\<exists>cs fs pfs ppf ns ts.
      map (get_citation_from_handle (db_of self)) (citation_list obj) = map Inr cs
    \<and> group obj' ''citations'' = Some (PyList cs)
    \<and> map (\<lambda>h. get_family_by_handle u (db_of self) (Some h)) (family_list obj) = map Inr fs
    \<and> group obj' ''families'' = Some (PyList fs)
    \<and> map (\<lambda>h. get_family_by_handle u (db_of self) (Some h)) (parent_family_list obj)
         = map Inr pfs
    \<and> group obj' ''parent_families'' = Some (PyList pfs)
    \<and> get_family_by_handle u (db_of self)
         (get_main_parents_family_handle u (obj\<lparr>profile := profile obj'\<rparr>)) = Inr ppf
    \<and> group obj' ''primary_parent_family'' = Some ppf
    \<and> map (get_note_from_handle (db_of self)) (note_list obj) = map Inr ns
    \<and> group obj' ''notes'' = Some (PyList ns)
    \<and> map (get_tag_from_handle (db_of self)) (tag_list obj) = map Inr ts
    \<and> group obj' ''tags'' = Some (PyList ts)"
proof -
  from assms(2) have "attach_extended u self (obj\<lparr>profile := profile obj'\<rparr>) = Inr obj'"
    using object_extend_Inr by blast
  from attach_extended_Inr [OF assms(1) this] show ?thesis
    unfolding comprehension_Inr_iff by (auto simp: group_def)
qed

theorem expansion_keeps_every_lookup_result_witness:
  "extend_object (lenient_helper False True)
   \<and> object_extend lenient_util (lenient_helper False True) dangling_person
       = Inr dangling_expanded
   \<and> (\<exists>ns. map (get_note_from_handle (db_of (lenient_helper False True)))
               (note_list dangling_person) = map Inr ns
          \<and> group dangling_expanded ''notes'' = Some (PyList ns)
          \<and> length ns = 2)"
proof -
  have e: "extend_object (lenient_helper False True)"
    by (simp add: helper_with_def)
  have r: "object_extend lenient_util (lenient_helper False True) dangling_person
       = Inr dangling_expanded"
    by (simp add: run_defs lenient_lookup_def dangling_person_def dangling_expanded_def)
  from expansion_keeps_every_lookup_result [OF e r]
  obtain ns where
    n: "map (get_note_from_handle (db_of (lenient_helper False True)))
          (note_list dangling_person) = map Inr ns"
    and g: "group dangling_expanded ''notes'' = Some (PyList ns)"
    by blast
  from n have "length ns = length (note_list dangling_person)"
    by (metis length_map)
  then have "length ns = 2"
    by (simp add: dangling_person_def)
  with e r n g show ?thesis by blast
qed

subsection \<open>C3: the nine groups of a full expansion\<close>

text \<open>
  Claim C3: expanding a person with everything requested gives a side map with exactly
  nine groups, named \<open>citations\<close>, \<open>events\<close>, \<open>families\<close>, \<open>parent_families\<close>,
  \<open>primary_parent_family\<close>, \<open>media\<close>, \<open>notes\<close>, \<open>people\<close> and \<open>tags\<close>, and none
  of its keys is the name of a source field. In the source the request is the flag
  \<open>extend_object\<close>, and the nine groups are there whatever the lists hold, so also when
  every list is non-empty.
\<close>

theorem extend_all_nine_groups:
  assumes "extend_object self" and "object_extend u self obj = Inr obj'"
  shows "\<exists>gs. extended obj' = Some gs
     \<and> map fst gs = [''citations'', ''events'', ''families'', ''parent_families'',
                     ''primary_parent_family'', ''media'', ''notes'', ''people'', ''tags'']
     \<and> length gs = 9 \<and> distinct (map fst gs)
     \<and> set (map fst gs) \<inter> set source_fields = {}"
proof -
  from assms(2) have "attach_extended u self (obj\<lparr>profile := profile obj'\<rparr>) = Inr obj'"
    using object_extend_Inr by blast
  from attach_extended_Inr [OF assms(1) this] show ?thesis
    by (auto simp: source_fields_def)
qed

theorem extend_all_nine_groups_witness:
  "extend_object (strict_helper True True)
   \<and> object_extend strict_util (strict_helper True True) sample_person = Inr sample_expanded
   \<and> (\<exists>gs. extended sample_expanded = Some gs
     \<and> map fst gs = [''citations'', ''events'', ''families'', ''parent_families'',
                     ''primary_parent_family'', ''media'', ''notes'', ''people'', ''tags'']
     \<and> length gs = 9 \<and> distinct (map fst gs)
     \<and> set (map fst gs) \<inter> set source_fields = {})"
proof -
  have e: "extend_object (strict_helper True True)"
    by (simp add: helper_with_def)
  from extend_all_nine_groups [OF e sample_run] e sample_run show ?thesis
    by blast
qed

subsection \<open>C4: expansion leaves the fields of the person alone\<close>

text \<open>
  Claim C4: \<open>object_extend\<close> changes no field that the person had before. The result
  differs from the argument at most in the two attributes \<open>profile\<close> and \<open>extended\<close>
  that \<open>object_extend\<close> attaches; the expansion is stored under \<open>extended\<close> only. (The
  helpers are functions of the database and the person: they return a value and have
  no access to the person's fields other than to read them.)
\<close>

theorem object_extend_frame:
  assumes "object_extend u self obj = Inr obj'"
  shows "obj' = obj\<lparr>profile := profile obj', extended := extended obj'\<rparr>"
proof -
  from assms obtain obj1 where a: "attach_profile u self obj = Inr obj1"
    and b: "attach_extended u self obj1 = Inr obj'"
    by (auto simp: object_extend_def and_then_Inr_iff)
  from a obtain p where "obj1 = obj\<lparr>profile := p\<rparr>" using attach_profile_frame by blast
  moreover from b obtain x where "obj' = obj1\<lparr>extended := x\<rparr>"
    using attach_extended_frame by blast
  ultimately show ?thesis by simp
qed

theorem object_extend_frame_witness:
  "object_extend strict_util (strict_helper True True) sample_person = Inr sample_expanded
   \<and> sample_expanded = sample_person\<lparr>profile := profile sample_expanded,
                                        extended := extended sample_expanded\<rparr>
   \<and> handle sample_expanded = ''P1''
   \<and> parent_family_list sample_expanded = [''F1'', ''F2'']"
proof -
  have "handle sample_expanded = ''P1''"
    and "parent_family_list sample_expanded = [''F1'', ''F2'']"
    by (simp_all add: sample_expanded_def sample_person_def)
  with object_extend_frame [OF sample_run] sample_run show ?thesis
    by blast
qed

subsection \<open>C10: nothing requested, nothing attached\<close>

text \<open>
  Claim C10: when neither a profile nor an expansion is requested (\<open>build_profile\<close> and
  \<open>extend_object\<close> both false), \<open>object_extend\<close> returns the person it was given,
  unchanged: no \<open>profile\<close> and no \<open>extended\<close> attribute is attached.
\<close>

theorem object_extend_identity_when_nothing_requested:
  "\<not> build_profile self \<Longrightarrow> \<not> extend_object self \<Longrightarrow> object_extend u self obj = Inr obj"
  by (simp add: object_extend_def attach_profile_def attach_extended_def and_then_def)

theorem object_extend_identity_witness:
  "\<not> build_profile (strict_helper False False)
   \<and> \<not> extend_object (strict_helper False False)
   \<and> object_extend strict_util (strict_helper False False) sample_person = Inr sample_person
   \<and> profile sample_person = None \<and> extended sample_person = None"
  using object_extend_identity_when_nothing_requested
    [of "strict_helper False False" strict_util sample_person]
  by (simp add: helper_with_def sample_person_def)

section \<open>Properties of the rule-set combinator\<close>

lemma select_Inr:
  "construct reg (rs_rules rs) = Inr ps \<Longrightarrow>
     select reg rs store = Inr (handle ` {e \<in> set store. selected ps rs store e})"
  by (simp add: select_def and_then_def)

lemma select_Inl:
  "construct reg (rs_rules rs) = Inl x \<Longrightarrow> select reg rs store = Inl x"
  by (simp add: select_def and_then_def)


lemma selected_inverted: "selected ps (inverted rs) store e = (\<not> selected ps rs store e)"
  by (auto simp: selected_def inverted_def chosen_function_def)

lemmas select_run_defs =
  select_def and_then_def selected_def evaluate_all_def person_rules_def chosen_function_def
  true_count_def FEMALE_def MALE_def four_people_def someone_def sample_person_def

lemma four_people_keyed: "inj_on handle (set four_people)"
proof -
  have "distinct (map handle four_people)"
    by (simp add: four_people_def someone_def)
  then show ?thesis by (simp add: distinct_map)
qed

subsection \<open>C6: the invert flag\<close>

text \<open>
  Claim C6: over a store in which the handle identifies the entity, the selection of a rule set with
  the invert flag flipped is exactly the complement, within the handles of the store,
  of the selection of the rule set itself (a rule set that cannot be constructed fails
  either way, with the same error), and flipping the flag twice gives the original
  selection. The flag is applied once, to the combined result.
\<close>

theorem invert_selects_complement:
  assumes "inj_on handle (set store)"
  shows "(case select reg rs store of
            Inl x \<Rightarrow> select reg (inverted rs) store = Inl x
          | Inr S \<Rightarrow> select reg (inverted rs) store = Inr (handle ` set store - S))
       \<and> select reg (inverted (inverted rs)) store = select reg rs store"
proof -
  have twice: "inverted (inverted rs) = rs" by (simp add: inverted_def)
  have rules: "rs_rules (inverted rs) = rs_rules rs" by (simp add: inverted_def)
  note inj = assms
  show ?thesis
  proof (cases "construct reg (rs_rules rs)")
    case (Inl x)
    then show ?thesis by (simp add: select_Inl twice rules)
  next
    case (Inr ps)
    have "handle ` {e \<in> set store. \<not> selected ps rs store e}
        = handle ` set store - handle ` {e \<in> set store. selected ps rs store e}"
      using inj by (auto dest: inj_onD)
    with Inr show ?thesis by (simp add: select_Inr twice rules selected_inverted)
  qed
qed

theorem invert_selects_complement_witness:
  "inj_on handle (set four_people)
   \<and> select person_rules male_remarried four_people = Inr {''B''}
   \<and> select person_rules (inverted male_remarried) four_people = Inr {''A'', ''C'', ''D''}
   \<and> select person_rules (inverted (inverted male_remarried)) four_people = Inr {''B''}"
proof -
  have s: "select person_rules male_remarried four_people = Inr {''B''}"
    by (simp add: select_run_defs male_remarried_def)
  have h: "handle ` set four_people - {''B''} = {''A'', ''C'', ''D''}"
    by (auto simp: four_people_def someone_def)
  from invert_selects_complement [OF four_people_keyed, of person_rules male_remarried]
  show ?thesis
    by (simp add: s h four_people_keyed)
qed

subsection \<open>C7: the combinator xor\<close>



section \<open>Properties of the sort engine\<close>

lemma precedes_total: "precedes d key a b \<or> precedes d key b a"
  by (auto simp: precedes_def)

lemma precedes_trans:
  "precedes d key a b \<Longrightarrow> precedes d key b c \<Longrightarrow> precedes d key a c"
  by (auto simp: precedes_def split: if_splits)

lemma precedes_antisym:
  "precedes d key a b \<Longrightarrow> precedes d key b a \<Longrightarrow> handle a = handle b"
  by (auto simp: precedes_def split: if_splits)

lemma mset_insert_entity: "mset (insert_entity d key x xs) = add_mset x (mset xs)"
  by (induction xs) auto

lemma set_insert_entity: "set (insert_entity d key x xs) = insert x (set xs)"
  by (induction xs) auto

lemma sorted_insert_entity:
  "sorted_wrt (precedes d key) xs \<Longrightarrow> sorted_wrt (precedes d key) (insert_entity d key x xs)"
proof (induction xs)
  case Nil
  show ?case by simp
next
  case (Cons y ys)
  show ?case
  proof (cases "precedes d key x y")
    case True
    with Cons.prems show ?thesis by (auto intro: precedes_trans)
  next
    case False
    with precedes_total [of d key x y] have "precedes d key y x" by blast
    with False Cons show ?thesis by (auto simp: set_insert_entity)
  qed
qed

lemma mset_order: "mset (order extraction xs k d l) = mset xs"
  unfolding order_def by (induction xs) (simp_all add: mset_insert_entity)

lemma sorted_order: "sorted_wrt (precedes d (extraction k l)) (order extraction xs k d l)"
  unfolding order_def by (induction xs) (simp_all add: sorted_insert_entity)

text \<open>Two sequences with the same entities, both in order, are the same sequence.\<close>

lemma sorted_wrt_unique:
  assumes "sorted_wrt R xs" and "sorted_wrt R ys" and "mset xs = mset ys"
    and "\<And>a b. a \<in> set xs \<Longrightarrow> b \<in> set xs \<Longrightarrow> R a b \<Longrightarrow> R b a \<Longrightarrow> a = b"
  shows "xs = ys"
  using assms
proof (induction xs arbitrary: ys)
  case Nil
  then show ?case by simp
next
  case (Cons x xs)
  from Cons.prems(3) obtain y ys' where ys: "ys = y # ys'"
    by (cases ys) auto
  from Cons.prems(3) have sets: "set (x # xs) = set ys"
    by (metis mset_eq_setD)
  have "x = y"
  proof (rule ccontr)
    assume ne: "x \<noteq> y"
    with sets ys have "x \<in> set ys'" and "y \<in> set xs" by auto
    with Cons.prems(1,2) ys have "R y x" and "R x y" by auto
    with Cons.prems(4) [of x y] \<open>y \<in> set xs\<close> ne show False by auto
  qed
  with Cons.prems ys have "xs = ys'"
    by (intro Cons.IH) auto
  with \<open>x = y\<close> ys show ?case by simp
qed

lemma order_keys_ascending:
  "sorted (map (extraction k l) (order extraction xs k Ascending l))"
proof -
  have "sorted_wrt (\<lambda>a b. extraction k l a \<le> extraction k l b)
          (order extraction xs k Ascending l)"
    by (rule sorted_wrt_mono_rel [OF _ sorted_order]) (auto simp: precedes_def split: if_splits)
  then show ?thesis by (simp add: sorted_wrt_map)
qed

lemma order_keys_descending:
  "sorted (rev (map (extraction k l) (order extraction xs k Descending l)))"
proof -
  have "sorted_wrt (\<lambda>a b. extraction k l b \<le> extraction k l a)
          (order extraction xs k Descending l)"
    by (rule sorted_wrt_mono_rel [OF _ sorted_order]) (auto simp: precedes_def split: if_splits)
  then show ?thesis by (simp add: sorted_wrt_rev sorted_wrt_map)
qed

lemma order_keys_reversed:
  "map (extraction k l) (order extraction xs k Descending l)
     = rev (map (extraction k l) (order extraction xs k Ascending l))"
proof -
  have "mset (rev (map (extraction k l) (order extraction xs k Descending l)))
      = mset (map (extraction k l) (order extraction xs k Ascending l))"
    by (simp add: mset_order)
  moreover note order_keys_descending [of extraction k l xs]
  moreover note order_keys_ascending [of extraction k l xs]
  ultimately have "rev (map (extraction k l) (order extraction xs k Descending l))
      = map (extraction k l) (order extraction xs k Ascending l)"
    by (intro sorted_wrt_unique [where R = "(\<le>)"]) auto
  then show ?thesis by (metis rev_rev_ident)
qed

lemma tied_sorted_by_handle:
  "sorted (map handle (tied (extraction k l) v (order extraction xs k d l)))"
proof -
  have "sorted_wrt (precedes d (extraction k l))
          (tied (extraction k l) v (order extraction xs k d l))"
    unfolding tied_def by (rule sorted_wrt_filter [OF sorted_order])
  then have "sorted_wrt (\<lambda>a b. handle a \<le> handle b)
               (tied (extraction k l) v (order extraction xs k d l))"
    by (rule sorted_wrt_mono_rel [rotated]) (auto simp: precedes_def tied_def)
  then show ?thesis by (simp add: sorted_wrt_map)
qed

lemma order_deterministic:
  assumes "inj_on handle (set xs)" and "mset ys = mset xs"
  shows "order extraction ys k d l = order extraction xs k d l"
proof -
  note inj = assms(1)
  have s: "set (order extraction ys k d l) = set xs"
    by (metis mset_order assms(2) mset_eq_setD)
  show ?thesis
  proof (rule sorted_wrt_unique [where R = "precedes d (extraction k l)"])
    show "mset (order extraction ys k d l) = mset (order extraction xs k d l)"
      by (simp add: mset_order assms(2))
  next
    fix a b
    assume "a \<in> set (order extraction ys k d l)" "b \<in> set (order extraction ys k d l)"
      "precedes d (extraction k l) a b" "precedes d (extraction k l) b a"
    with s inj show "a = b" by (auto dest: precedes_antisym inj_onD)
  qed (rule sorted_order)+
qed

lemma tied_same_both_directions:
  assumes "inj_on handle (set xs)"
  shows "tied (extraction k l) v (order extraction xs k Descending l)
       = tied (extraction k l) v (order extraction xs k Ascending l)"
proof -
  note inj = assms
  let ?D = "tied (extraction k l) v (order extraction xs k Descending l)"
  let ?A = "tied (extraction k l) v (order extraction xs k Ascending l)"
  have sD: "set ?D \<subseteq> set xs"
    unfolding tied_def by (metis filter_is_subset mset_order mset_eq_setD)
  have "sorted_wrt (\<lambda>a b. handle a \<le> handle b) ?D"
    and "sorted_wrt (\<lambda>a b. handle a \<le> handle b) ?A"
    using tied_sorted_by_handle [of extraction k l v xs] by (simp_all add: sorted_wrt_map)
  moreover have "mset ?D = mset ?A"
    by (simp add: tied_def mset_order)
  moreover have "a = b"
    if "a \<in> set ?D" "b \<in> set ?D" "handle a \<le> handle b" "handle b \<le> handle a" for a b
    using that sD inj by (auto dest!: inj_onD)
  ultimately show ?thesis
    by (intro sorted_wrt_unique [where R = "\<lambda>a b. handle a \<le> handle b"]) auto
qed

subsection \<open>C8: a total order, and the reversed direction\<close>

text \<open>
  Claim C8: for every sequence of entities in which the handle identifies the entity,
  every sort key and every locale, sorting gives a total order in which ties go by handle, ascending: the
  result is a rearrangement of the input that is in order under \<open>precedes\<close>, any two
  entities are comparable, and the result does not depend on the order of the input.
  Sorting in the reversed direction gives exactly the reverse sequence of keys, and the
  entities tied at a key value stand in the same order, by handle ascending, in both
  directions.
\<close>

theorem order_total_and_reversal:
  assumes "inj_on handle (set entities)"
  shows "mset (order extraction entities k d l) = mset entities
     \<and> sorted_wrt (precedes d (extraction k l)) (order extraction entities k d l)
     \<and> (\<forall>a b. precedes d (extraction k l) a b \<or> precedes d (extraction k l) b a)
     \<and> (\<forall>ys. mset ys = mset entities
            \<longrightarrow> order extraction ys k d l = order extraction entities k d l)
     \<and> map (extraction k l) (order extraction entities k Descending l)
         = rev (map (extraction k l) (order extraction entities k Ascending l))
     \<and> (\<forall>v. tied (extraction k l) v (order extraction entities k Descending l)
            = tied (extraction k l) v (order extraction entities k Ascending l))
     \<and> (\<forall>v. sorted (map handle (tied (extraction k l) v (order extraction entities k d l))))"
  using assms
  by (intro conjI allI impI mset_order sorted_order precedes_total order_keys_reversed
        tied_same_both_directions tied_sorted_by_handle order_deterministic)


theorem order_total_and_reversal_witness:
  "inj_on handle (set three_dated)
   \<and> order by_change three_dated ''change'' Ascending ''en''
       = [dated ''c'' 1, dated ''a'' 2, dated ''b'' 2]
   \<and> order by_change three_dated ''change'' Descending ''en''
       = [dated ''a'' 2, dated ''b'' 2, dated ''c'' 1]
   \<and> map (by_change ''change'' ''en'') (order by_change three_dated ''change'' Descending ''en'')
       = rev (map (by_change ''change'' ''en'')
                (order by_change three_dated ''change'' Ascending ''en''))
   \<and> tied (by_change ''change'' ''en'') 2 (order by_change three_dated ''change'' Descending ''en'')
       = [dated ''a'' 2, dated ''b'' 2]"
proof -
  have "distinct (map handle three_dated)"
    by (simp add: three_dated_def dated_def)
  then have d: "inj_on handle (set three_dated)"
    by (simp add: distinct_map)
  have a: "order by_change three_dated ''change'' Ascending ''en''
       = [dated ''c'' 1, dated ''a'' 2, dated ''b'' 2]"
    by (simp add: order_def precedes_def by_change_def three_dated_def dated_def
          sample_person_def)
  have b: "order by_change three_dated ''change'' Descending ''en''
       = [dated ''a'' 2, dated ''b'' 2, dated ''c'' 1]"
    by (simp add: order_def precedes_def by_change_def three_dated_def dated_def
          sample_person_def)
  have "tied (by_change ''change'' ''en'') 2 [dated ''a'' 2, dated ''b'' 2, dated ''c'' 1]
       = [dated ''a'' 2, dated ''b'' 2]"
    by (simp add: tied_def by_change_def dated_def)
  then have t: "tied (by_change ''change'' ''en'') 2
         (order by_change three_dated ''change'' Descending ''en'')
       = [dated ''a'' 2, dated ''b'' 2]"
    unfolding b .
  note r = order_total_and_reversal [OF d, of by_change "''change''" Descending "''en''",
      THEN conjunct2, THEN conjunct2, THEN conjunct2, THEN conjunct2, THEN conjunct1]
  show ?thesis
    by (intro conjI) (rule d a b r t)+
qed

section \<open>Properties of the profile engine\<close>

lemma keys_profile_of:
  "dict_keys (profile_of env e options loc) =
     [''birth'', ''death'', ''gramps_id'', ''handle'', ''name_given'', ''name_surname'', ''sex'']
     @ (if wants options OptEvents then [''events''] else [])
     @ (if wants options OptFamilies
        then [''families'', ''other_parent_families'', ''primary_parent_family''] else [])"
  by (simp add: dict_keys_def profile_of_def self_profile_def)

lemma birth_profile_of:
  "dict_get (profile_of env e options loc) ''birth''
     = Some (vital env loc (wants options OptAge) (birth_of env e) (birth_of env e))"
  by (simp add: dict_get_def profile_of_def self_profile_def)

lemma no_age_without_option:
  "''age'' \<notin> set (dict_keys (vital env loc False b ev))"
  by (cases ev) (simp_all add: vital_def dict_keys_def event_profile_def)

subsection \<open>C9: the options of a profile add up\<close>

text \<open>
  Claim C9: a profile requested with the option \<open>families\<close> alone has the family
  sub-summaries and no event list; a profile requested with the option \<open>events\<close> alone
  has the event list and no family sub-summaries; and in neither of them the birth entry
  has an age field.
\<close>

theorem profile_options_compose_additively:
  "''events'' \<notin> set (dict_keys (profile_of env e [OptFamilies] loc))
   \<and> ''families'' \<in> set (dict_keys (profile_of env e [OptFamilies] loc))
   \<and> ''events'' \<in> set (dict_keys (profile_of env e [OptEvents] loc))
   \<and> ''families'' \<notin> set (dict_keys (profile_of env e [OptEvents] loc))
   \<and> ''other_parent_families'' \<notin> set (dict_keys (profile_of env e [OptEvents] loc))
   \<and> ''primary_parent_family'' \<notin> set (dict_keys (profile_of env e [OptEvents] loc))
   \<and> (\<exists>b. dict_get (profile_of env e [OptFamilies] loc) ''birth'' = Some b
          \<and> ''age'' \<notin> set (dict_keys b))
   \<and> (\<exists>b. dict_get (profile_of env e [OptEvents] loc) ''birth'' = Some b
          \<and> ''age'' \<notin> set (dict_keys b))"
  by (simp add: keys_profile_of birth_profile_of wants_def no_age_without_option)

theorem profile_options_compose_additively_witness:
  "dict_keys (profile_of sample_lookups sample_person [OptFamilies] ''en'')
     = [''birth'', ''death'', ''gramps_id'', ''handle'', ''name_given'', ''name_surname'', ''sex'',
        ''families'', ''other_parent_families'', ''primary_parent_family'']
   \<and> dict_keys (profile_of sample_lookups sample_person [OptEvents] ''en'')
     = [''birth'', ''death'', ''gramps_id'', ''handle'', ''name_given'', ''name_surname'', ''sex'',
        ''events'']
   \<and> dict_get (profile_of sample_lookups sample_person [OptEvents] ''en'') ''birth''
     = Some (PyDict [(''date'', PyStr ''a date''), (''place'', PyStr ''Central City''),
                     (''type'', PyStr ''Birth'')])
   \<and> dict_get (profile_of sample_lookups sample_person [OptAge] ''en'') ''birth''
     = Some (PyDict [(''age'', PyStr ''some time''), (''date'', PyStr ''a date''),
                     (''place'', PyStr ''Central City''), (''type'', PyStr ''Birth'')])
   \<and> ''events'' \<notin> set (dict_keys (profile_of sample_lookups sample_person [OptFamilies] ''en''))"
  using profile_options_compose_additively [of sample_lookups sample_person "''en''"]
  by (simp add: dict_keys_def dict_get_def profile_of_def self_profile_def wants_def vital_def
        event_profile_def elapsed_entry_def fully_unknown_def sample_lookups_def born_def)

end
